theory Spec2Isabelle
  imports Main
begin

section \<open>Data model\<close>

text \<open>
  The records of the store. A recipe row carries the columns the controller
  \<^verbatim>\<open>server/controllers/recipes.js\<close> writes (name, description, ingredients,
  direction, imageUrl, userId) and the counters. The model file declares the two vote
  counters as nullable INTEGER columns named \<^verbatim>\<open>vpvotes\<close> and \<^verbatim>\<open>downvotes\<close>,
  so they are \<open>int option\<close> here (\<open>None\<close> is SQL NULL) and keep the declared names.
  Row timestamps of recipes are left out: no handler below reads them.
\<close>

record recipe =
  r_id :: nat
  r_userId :: nat
  r_name :: string
  r_description :: string
  r_ingredients :: string
  r_direction :: string
  r_imageUrl :: "string option"
  vpvotes :: "int option"
  downvotes :: "int option"
  viewCount :: int

record user =
  u_id :: nat
  u_name :: string
  username :: string
  email :: string
  password :: string
  u_updatedAt :: nat

record favorite =
  f_userId :: nat
  f_recipeId :: nat

subsection \<open>The Recipe model definition\<close>

datatype dtype = STRING | INTEGER | ARRAY dtype

record attribute =
  atype :: dtype
  allowNull :: bool
  defaultValue :: "int option"

text \<open>The attribute table handed to \<^verbatim>\<open>sequelize.define('Recipe', ...)\<close>.\<close>

definition Recipe :: "(string \<times> attribute) list" where
  "Recipe =
    [(''name'', \<lparr>atype = STRING, allowNull = False, defaultValue = None\<rparr>),
     (''ingredients'', \<lparr>atype = ARRAY STRING, allowNull = True, defaultValue = None\<rparr>),
     (''direction'', \<lparr>atype = STRING, allowNull = True, defaultValue = None\<rparr>),
     (''vpvotes'', \<lparr>atype = INTEGER, allowNull = True, defaultValue = Some 0\<rparr>),
     (''downvotes'', \<lparr>atype = INTEGER, allowNull = True, defaultValue = Some 0\<rparr>)]"

text \<open>The value a column gets when \<^verbatim>\<open>create\<close> is not given one.\<close>

definition default_of :: "string \<Rightarrow> int option" where
  "default_of a = (case map_of Recipe a of None \<Rightarrow> None | Some d \<Rightarrow> defaultValue d)"

text \<open>
  Modelled from the spec: the \<^verbatim>\<open>viewCount\<close> column. The model file among the
  sources declares no such column; the spec's data model gives the view count as a
  non-negative integer with default 0.
\<close>

definition viewCount_default :: int where
  "viewCount_default = 0"

subsection \<open>Requests, responses and effects\<close>

text \<open>
  The body of a response: nothing, the created row, the rows returned by an update
  (\<^verbatim>\<open>result[1]\<close>), or rows joined with the owning User's \<^verbatim>\<open>name\<close> and
  \<^verbatim>\<open>updatedAt\<close> (absent when no such user exists: the include is an outer join).
\<close>

type_synonym joined = "recipe \<times> (string \<times> nat) option"

datatype payload =
    NoPayload
  | Row recipe
  | Rows "recipe list"
  | Joined joined
  | JoinedRows "joined list"

record response =
  status :: nat
  success :: bool
  message :: string
  body :: payload

datatype strategy =
    SortMostUpvotes
  | SearchByIngredients
  | SearchByName
  | SearchAll
  | Default

text \<open>
  Everything a handler does to the outside, in the order the code issues it: files
  written by the upload middleware, \<^verbatim>\<open>fs.unlink\<close> calls, store writes that
  resolved, the discovery strategy that was run, calls of the notifier, and responses.
\<close>

datatype event =
    Stored string
  | Unlink string
  | Created recipe
  | Updated nat
  | Destroyed nat
  | Incremented nat
  | Ran strategy
  | Notify "string list" string string
  | Send response

record world =
  recipes :: "recipe list"
  users :: "user list"
  favorites :: "favorite list"
  files :: "string set"
  nextId :: nat
  log :: "event list"

text \<open>The store calls the controller makes; any of them may reject.\<close>

datatype dbcall =
    RecipeCreate
  | RecipeFindById
  | RecipeUpdate
  | RecipeDestroy
  | RecipeFindOne
  | RecipeIncrement
  | RecipeReload
  | RecipeFindAll
  | FavoriteFindAll

text \<open>
  What a handler is run with besides the request: whether \<^verbatim>\<open>NODE_ENV\<close> is
  \<^verbatim>\<open>production\<close>, which store calls reject, and the validator
  \<^verbatim>\<open>validate.validateRecipeDetails\<close> (not among the sources, hence a parameter:
  it gets name, ingredients, direction and the recipe id, and returns a message or
  nothing).
\<close>

record env =
  production :: bool
  rejects :: "dbcall \<Rightarrow> bool"
  validateRecipeDetails :: "string \<Rightarrow> string \<Rightarrow> string option \<Rightarrow> nat option \<Rightarrow> string option"

text \<open>
  A create, update or delete request. \<open>upload\<close> is what the upload middleware
  reports: an error message, or the stored file's generated name if a file was sent.
  The recipe id of the path and the id of the signed-in user are numbers; a path id
  the store cannot read as a number makes the lookup reject, which \<open>rejects\<close> covers.
\<close>

record request =
  upload :: "string + string option"
  body_name :: "string option"
  body_description :: "string option"
  body_ingredients :: "string option"
  body_direction :: "string option"
  params_recipeId :: nat
  user_id :: nat

text \<open>
  A query parameter as the framework parses it: absent, a string, several values
  (\<^verbatim>\<open>?a=x&a=y\<close>), or an object of named values (\<^verbatim>\<open>?a[k]=x\<close>).
\<close>

datatype qparam = Absent | QStr string | QArr "string list" | QObj "(string \<times> string) list"

record query =
  q_sort :: qparam
  q_order :: qparam
  q_ingredients :: qparam
  q_recipes :: qparam
  q_search :: qparam

text \<open>
  The four search methods of \<^verbatim>\<open>./searchRecipe\<close> are not among the sources; each
  is a parameter that answers a query over the store with a response.
\<close>

record search =
  sortMostUpvotes :: "query \<Rightarrow> world \<Rightarrow> response"
  searchByIngredients :: "query \<Rightarrow> world \<Rightarrow> response"
  searchByName :: "query \<Rightarrow> world \<Rightarrow> response"
  searchAll :: "query \<Rightarrow> world \<Rightarrow> response"

section \<open>Helpers\<close>

definition folder :: "env \<Rightarrow> string" where
  "folder E = (if production E then ''build'' else ''public'')"

text \<open>
  Strings are byte sequences, a text in UTF-8. \<open>space_width s\<close> is the number of bytes
  of the whitespace character \<open>s\<close> starts with, and 0 when it starts with none. The
  class is that of \<^verbatim>\<open>\s\<close>: tab, line feed, vertical tab, form feed, carriage return
  and blank, and beyond ASCII U+00A0, U+1680, U+2000 to U+200A, U+2028, U+2029, U+202F,
  U+205F, U+3000 and U+FEFF in their encodings.
\<close>

definition space_width :: "string \<Rightarrow> nat" where
  "space_width s =
     (case map of_char s of
        [] \<Rightarrow> 0
      | b1 # bs \<Rightarrow>
          if b1 \<in> {9, 10, 11, 12, 13, 32 :: nat} then 1
          else if b1 = 194 \<and> take 1 bs = [160] then 2
          else
            (case bs of
               b2 # b3 # rest \<Rightarrow>
                 if (b1 = 225 \<and> b2 = 154 \<and> b3 = 128) \<or>
                    (b1 = 226 \<and> b2 = 128 \<and>
                       (128 \<le> b3 \<and> b3 \<le> 138 \<or> b3 = 168 \<or> b3 = 169 \<or> b3 = 175)) \<or>
                    (b1 = 226 \<and> b2 = 129 \<and> b3 = 159) \<or>
                    (b1 = 227 \<and> b2 = 128 \<and> b3 = 128) \<or>
                    (b1 = 239 \<and> b2 = 187 \<and> b3 = 191)
                 then 3 else 0
             | _ \<Rightarrow> 0))"

text \<open>
  \<^verbatim>\<open>s.replace(/\s+/g, ' ')\<close>: every run of whitespace becomes one blank. The flag
  says whether the position is inside a run whose blank has been written.
\<close>

function collapse :: "bool \<Rightarrow> string \<Rightarrow> string" where
  "collapse inside [] = []"
| "collapse inside (c # cs) =
     (if space_width (c # cs) = 0 then c # collapse False cs
      else (if inside then [] else [CHR '' '']) @
             collapse True (drop (space_width (c # cs) - 1) cs))"
  by pat_completeness auto
termination
  by (relation "measure (\<lambda>(inside, s). length s)") auto

definition trimWhiteSpaces :: "string option \<Rightarrow> string" where
  "trimWhiteSpaces param = collapse False (case param of None \<Rightarrow> [] | Some s \<Rightarrow> s)"

text \<open>A value is truthy unless it is absent or the empty string.\<close>

fun truthy :: "qparam \<Rightarrow> bool" where
  "truthy Absent = False"
| "truthy (QStr s) = (s \<noteq> [])"
| "truthy (QArr vs) = True"
| "truthy (QObj kvs) = True"

definition truthy_msg :: "string option \<Rightarrow> string option" where
  "truthy_msg v = (case v of None \<Rightarrow> None | Some m \<Rightarrow> if m = [] then None else Some m)"

text \<open>Template-string rendering of a number and of a nullable string.\<close>

definition digit :: "nat \<Rightarrow> char" where
  "digit d = char_of (48 + d)"

function show_nat :: "nat \<Rightarrow> string" where
  "show_nat n = (if n < 10 then [digit n] else show_nat (n div 10) @ [digit (n mod 10)])"
  by pat_completeness auto
termination
  by (relation "measure id") auto

declare show_nat.simps [simp del]

definition show_nullable :: "string option \<Rightarrow> string" where
  "show_nullable v = (case v of None \<Rightarrow> ''null'' | Some s \<Rightarrow> s)"

definition emit :: "event \<Rightarrow> world \<Rightarrow> world" where
  "emit e w = w\<lparr>log := log w @ [e]\<rparr>"

definition respond :: "nat \<Rightarrow> bool \<Rightarrow> string \<Rightarrow> payload \<Rightarrow> world \<Rightarrow> world" where
  "respond st ok msg p w = emit (Send \<lparr>status = st, success = ok, message = msg, body = p\<rparr>) w"

definition unlink :: "string \<Rightarrow> world \<Rightarrow> world" where
  "unlink path w = emit (Unlink path) (w\<lparr>files := files w - {path}\<rparr>)"

text \<open>The upload middleware stores a sent file under the recipes folder.\<close>

definition stored :: "env \<Rightarrow> string option \<Rightarrow> world \<Rightarrow> world" where
  "stored E file w =
     (case file of
        None \<Rightarrow> w
      | Some fn \<Rightarrow>
          emit (Stored (''client/'' @ folder E @ ''/recipes/'' @ fn))
            (w\<lparr>files := insert (''client/'' @ folder E @ ''/recipes/'' @ fn) (files w)\<rparr>))"

definition findById :: "nat \<Rightarrow> recipe list \<Rightarrow> recipe option" where
  "findById i rs = find (\<lambda>r. r_id r = i) rs"

definition owner_of :: "world \<Rightarrow> recipe \<Rightarrow> (string \<times> nat) option" where
  "owner_of w r =
     map_option (\<lambda>u. (u_name u, u_updatedAt u)) (find (\<lambda>u. u_id u = r_userId r) (users w))"

definition include_User :: "world \<Rightarrow> recipe \<Rightarrow> joined" where
  "include_User w r = (r, owner_of w r)"


text \<open>
  \<^verbatim>\<open>foundUsers.map(user => user.User.email)\<close> over the joined Favorite rows: a row
  whose user is missing makes the callback throw.
\<close>

fun userEmails :: "user option list \<Rightarrow> string list option" where
  "userEmails [] = Some []"
| "userEmails (None # rest) = None"
| "userEmails (Some u # rest) = map_option ((#) (email u)) (userEmails rest)"

definition favorite_findAll :: "nat \<Rightarrow> world \<Rightarrow> user option list" where
  "favorite_findAll recipeId w =
     map (\<lambda>f. find (\<lambda>u. u_id u = f_userId f) (users w))
       (filter (\<lambda>f. f_recipeId f = recipeId) (favorites w))"

section \<open>The recipe controller\<close>

subsection \<open>createRecipe\<close>

definition createRecipe :: "env \<Rightarrow> request \<Rightarrow> world \<Rightarrow> world" where
  "createRecipe E req w =
     (case upload req of
        Inl err \<Rightarrow> respond 400 False err NoPayload w
      | Inr file \<Rightarrow>
          (let w1 = stored E file w;
               filePath = (case file of Some fn \<Rightarrow> ''recipes/'' @ fn | None \<Rightarrow> ''null'');
               name = trimWhiteSpaces (body_name req);
               description = trimWhiteSpaces (body_description req);
               ingredients = trimWhiteSpaces (body_ingredients req);
               direction = trimWhiteSpaces (body_direction req)
           in case truthy_msg (validateRecipeDetails E name ingredients (Some direction) None) of
                Some validateRecipeError \<Rightarrow> respond 400 False validateRecipeError NoPayload w1
              | None \<Rightarrow>
                  if rejects E RecipeCreate
                  then respond 500 False ''Error Creating Recipe'' NoPayload w1
                  else
                    (let createdRecipe =
                           \<lparr>r_id = nextId w1, r_userId = user_id req, r_name = name,
                            r_description = description, r_ingredients = ingredients,
                            r_direction = direction, r_imageUrl = Some filePath,
                            vpvotes = default_of ''vpvotes'',
                            downvotes = default_of ''downvotes'',
                            viewCount = viewCount_default\<rparr>
                     in respond 201 True ''New Recipe created'' (Row createdRecipe)
                          (emit (Created createdRecipe)
                             (w1\<lparr>recipes := recipes w1 @ [createdRecipe],
                                 nextId := Suc (nextId w1)\<rparr>)))))"

subsection \<open>modifyRecipe\<close>

text \<open>
  \<^verbatim>\<open>recipe.update(values, {where: {id}})\<close>: a value that is undefined (here only
  the direction, which is passed on as the body has it) leaves its column as it is.
\<close>

definition recipe_update ::
  "string \<Rightarrow> string \<Rightarrow> string \<Rightarrow> string option \<Rightarrow> string option \<Rightarrow> nat \<Rightarrow> recipe list \<Rightarrow> recipe list"
where
  "recipe_update name description ingredients imageUrl direction recipeId rs =
     map (\<lambda>r. if r_id r = recipeId
               then r\<lparr>r_name := name, r_description := description,
                      r_ingredients := ingredients, r_imageUrl := imageUrl,
                      r_direction := (case direction of None \<Rightarrow> r_direction r | Some d \<Rightarrow> d)\<rparr>
               else r) rs"

text \<open>
  The promise of \<^verbatim>\<open>recipe.update\<close> and the one of \<^verbatim>\<open>favorite.findAll\<close>
  inside it are not returned to the chain that carries the \<^verbatim>\<open>catch\<close>: when one
  of them rejects, or the mapping callback throws, nothing more happens and no response
  is sent.
\<close>

definition modifyRecipe :: "env \<Rightarrow> request \<Rightarrow> world \<Rightarrow> world" where
  "modifyRecipe E req w =
     (case upload req of
        Inl err \<Rightarrow> respond 400 False err NoPayload w
      | Inr file \<Rightarrow>
          (let w1 = stored E file w;
               imageUrl = (case file of Some fn \<Rightarrow> Some (''recipes/'' @ fn) | None \<Rightarrow> None);
               userId = user_id req;
               recipeId = params_recipeId req;
               name = trimWhiteSpaces (body_name req);
               description = trimWhiteSpaces (body_description req);
               ingredients = trimWhiteSpaces (body_ingredients req);
               direction = body_direction req
           in case truthy_msg (validateRecipeDetails E name ingredients direction (Some recipeId)) of
                Some validateRecipeError \<Rightarrow> respond 400 False validateRecipeError NoPayload w1
              | None \<Rightarrow>
                  if rejects E RecipeFindById
                  then respond 500 False ''Error Modifying Recipe'' NoPayload w1
                  else
                    (case findById recipeId (recipes w1) of
                       None \<Rightarrow>
                         respond 404 False (''No matching recipe with id: '' @ show_nat recipeId)
                           NoPayload w1
                     | Some recipeFound \<Rightarrow>
                         if r_userId recipeFound \<noteq> userId
                         then respond 401 False ''You cannot modify a recipe not created by You!''
                                NoPayload
                                (unlink (''client/'' @ folder E @ ''/'' @ show_nullable imageUrl) w1)
                         else
                           (let w2 = (case imageUrl of
                                        None \<Rightarrow> w1
                                      | Some u \<Rightarrow>
                                          unlink (''client/'' @ folder E @ ''/'' @
                                                    show_nullable (r_imageUrl recipeFound)) w1);
                                imageUrl' = (case imageUrl of
                                               None \<Rightarrow> r_imageUrl recipeFound
                                             | Some u \<Rightarrow> Some u)
                            in if rejects E RecipeUpdate then w2
                               else
                                 (let w3 = emit (Updated recipeId)
                                            (w2\<lparr>recipes :=
                                                  recipe_update name description ingredients
                                                    imageUrl' direction recipeId (recipes w2)\<rparr>);
                                      result = filter (\<lambda>r. r_id r = recipeId) (recipes w3)
                                  in if rejects E FavoriteFindAll then w3
                                     else
                                       (case userEmails (favorite_findAll recipeId w3) of
                                          None \<Rightarrow> w3
                                        | Some emails \<Rightarrow>
                                            respond 201 True ''Recipe record updated'' (Rows result)
                                              (emit (Notify emails ''Favorite Recipe Modified''
                                                       ''One of your favorite recipes has been modified'')
                                                 w3)))))))"

subsection \<open>deleteRecipe\<close>

text \<open>
  The promise of \<^verbatim>\<open>recipe.destroy\<close> is not returned to the chain either: when it
  rejects, no response is sent.
\<close>

definition deleteRecipe :: "env \<Rightarrow> request \<Rightarrow> world \<Rightarrow> world" where
  "deleteRecipe E req w =
     (let recipeId = params_recipeId req;
          userId = user_id req
      in if rejects E RecipeFindById
         then respond 500 False ''Error Deleting Recipe'' NoPayload w
         else
           (case findById recipeId (recipes w) of
              None \<Rightarrow>
                respond 404 False (''No matching recipe with id: '' @ show_nat recipeId) NoPayload w
            | Some recipeFound \<Rightarrow>
                (let imageUrl = r_imageUrl recipeFound
                 in if r_userId recipeFound \<noteq> userId
                    then respond 401 False ''You cannot delete this recipe'' NoPayload w
                    else if rejects E RecipeDestroy then w
                    else respond 205 True ''Recipe Deleted!'' NoPayload
                           (unlink (''client/'' @ folder E @ ''/'' @ show_nullable imageUrl)
                              (emit (Destroyed recipeId)
                                 (w\<lparr>recipes := filter (\<lambda>r. r_id r \<noteq> recipeId) (recipes w)\<rparr>))))))"

subsection \<open>getRecipe\<close>

text \<open>
  When no recipe matches, the 404 response is sent and its return value flows into the
  next step of the chain, where calling \<^verbatim>\<open>reload\<close> on it throws; the
  \<^verbatim>\<open>catch\<close> then tries to send a 500 as well. The client receives the first
  response of a request.
\<close>

definition getRecipe :: "env \<Rightarrow> nat \<Rightarrow> world \<Rightarrow> world" where
  "getRecipe E recipeId w =
     (if rejects E RecipeFindOne
      then respond 500 False ''Unable to fetch recipes'' NoPayload w
      else
        (case findById recipeId (recipes w) of
           None \<Rightarrow>
             respond 500 False ''Unable to fetch recipes'' NoPayload
               (respond 404 False (''No matching recipe with id: '' @ show_nat recipeId)
                  NoPayload w)
         | Some recipeFound \<Rightarrow>
             if rejects E RecipeIncrement
             then respond 500 False ''Unable to fetch recipes'' NoPayload w
             else
               (let w1 = emit (Incremented recipeId)
                          (w\<lparr>recipes :=
                               map (\<lambda>r. if r_id r = r_id recipeFound
                                         then r\<lparr>viewCount := viewCount r + 1\<rparr> else r)
                                 (recipes w)\<rparr>)
                in if rejects E RecipeReload
                   then respond 500 False ''Unable to fetch recipes'' NoPayload w1
                   else
                     (case findById recipeId (recipes w1) of
                        None \<Rightarrow> respond 500 False ''Unable to fetch recipes'' NoPayload w1
                      | Some recipeLoaded \<Rightarrow>
                          respond 201 True ''Recipe found''
                            (Joined (include_User w1 recipeLoaded)) w1))))"

subsection \<open>getUserRecipes and getAllRecipes\<close>

text \<open>A list of rows is always truthy, so the 404 branches of the two listings are dead.\<close>

definition getUserRecipes :: "env \<Rightarrow> nat \<Rightarrow> world \<Rightarrow> world" where
  "getUserRecipes E userId w =
     (if rejects E RecipeFindAll
      then respond 500 False ''Unable to get user recipes'' NoPayload w
      else respond 201 True ''User Recipes found''
             (JoinedRows (map (include_User w) (filter (\<lambda>r. r_userId r = userId) (recipes w)))) w)"

definition getAllRecipes :: "search \<Rightarrow> env \<Rightarrow> query \<Rightarrow> world \<Rightarrow> world" where
  "getAllRecipes newSearch E q w =
     (if q_sort q = QStr ''upvotes'' \<and> q_order q = QStr ''descending''
      then emit (Send (sortMostUpvotes newSearch q w)) (emit (Ran SortMostUpvotes) w)
      else if truthy (q_ingredients q)
      then emit (Send (searchByIngredients newSearch q w)) (emit (Ran SearchByIngredients) w)
      else if truthy (q_recipes q)
      then emit (Send (searchByName newSearch q w)) (emit (Ran SearchByName) w)
      else if truthy (q_search q)
      then emit (Send (searchAll newSearch q w)) (emit (Ran SearchAll) w)
      else
        (let w1 = emit (Ran Default) w
         in if rejects E RecipeFindAll
            then respond 500 False ''Unable to fetch recipes'' NoPayload w1
            else respond 201 True ''Recipes found''
                   (JoinedRows (map (include_User w1) (recipes w1))) w1))"


section \<open>Parts outside the sources\<close>

text \<open>
  Modelled from the spec: the validator \<^verbatim>\<open>validateRecipeDetails\<close> of
  \<^verbatim>\<open>../middleware/validate\<close>, which is not among the sources. The spec has it
  require name, ingredients and direction to be non-empty after whitespace
  normalisation; the wording of its messages is not given, so the message names the
  field. It is used only to run the handlers on concrete requests; the general
  theorems hold for every validator.
\<close>

definition validateRecipeDetails_spec ::
  "string \<Rightarrow> string \<Rightarrow> string option \<Rightarrow> nat option \<Rightarrow> string option"
where
  "validateRecipeDetails_spec name ingredients direction recipeId =
     (if trimWhiteSpaces (Some name) = [] then Some ''name''
      else if trimWhiteSpaces (Some ingredients) = [] then Some ''ingredients''
      else if trimWhiteSpaces direction = [] then Some ''direction''
      else None)"

text \<open>
  Modelled from the spec: the notifier \<^verbatim>\<open>./../services/notify\<close>, which is not
  among the sources. The spec has it emit one notification per address it is given,
  with the given subject and body, through a delivery collaborator.
\<close>

type_synonym delivery = "string \<times> string \<times> string"

definition notify :: "string list \<Rightarrow> string \<Rightarrow> string \<Rightarrow> delivery list" where
  "notify addresses subject text = map (\<lambda>address. (address, subject, text)) addresses"

fun deliveries :: "event list \<Rightarrow> delivery list" where
  "deliveries [] = []"
| "deliveries (Notify addresses subject text # es) =
     notify addresses subject text @ deliveries es"
| "deliveries (e # es) = deliveries es"

text \<open>
  Modelled from the spec: the vote handler, which is not among the sources. The spec's
  Vote Tally looks the recipe up, fails with NotFound if it is absent, increments the
  counter of the given direction through the store's increment primitive and returns
  the counter pair after the increment. An increment of a NULL column leaves it NULL.
\<close>

datatype direction = Up | Down

datatype vote_error = NotFound

definition increment :: "int option \<Rightarrow> int option" where
  "increment c = map_option (\<lambda>n. n + 1) c"

definition store_increment :: "nat \<Rightarrow> direction \<Rightarrow> recipe list \<Rightarrow> recipe list" where
  "store_increment recipeId d rs =
     map (\<lambda>r. if r_id r = recipeId
               then (case d of
                       Up \<Rightarrow> r\<lparr>vpvotes := increment (vpvotes r)\<rparr>
                     | Down \<Rightarrow> r\<lparr>downvotes := increment (downvotes r)\<rparr>)
               else r) rs"

definition applyVote ::
  "nat \<Rightarrow> direction \<Rightarrow> world \<Rightarrow> (vote_error + int option \<times> int option) \<times> world"
where
  "applyVote recipeId d w =
     (case findById recipeId (recipes w) of
        None \<Rightarrow> (Inl NotFound, w)
      | Some found \<Rightarrow>
          (let w1 = emit (Incremented recipeId)
                     (w\<lparr>recipes := store_increment recipeId d (recipes w)\<rparr>)
           in case findById recipeId (recipes w1) of
                None \<Rightarrow> (Inl NotFound, w1)
              | Some r \<Rightarrow> (Inr (vpvotes r, downvotes r), w1)))"

section \<open>Observations on the effect log\<close>

text \<open>The events one run of a handler adds.\<close>

definition events_of :: "(world \<Rightarrow> world) \<Rightarrow> world \<Rightarrow> event list" where
  "events_of handler w = drop (length (log w)) (log (handler w))"

fun responses :: "event list \<Rightarrow> response list" where
  "responses [] = []"
| "responses (Send r # es) = r # responses es"
| "responses (e # es) = responses es"

fun strategies_run :: "event list \<Rightarrow> strategy list" where
  "strategies_run [] = []"
| "strategies_run (Ran s # es) = s # strategies_run es"
| "strategies_run (e # es) = strategies_run es"

fun notifications :: "event list \<Rightarrow> string list list" where
  "notifications [] = []"
| "notifications (Notify addresses subject text # es) = addresses # notifications es"
| "notifications (e # es) = notifications es"

fun unlinked :: "event list \<Rightarrow> string list" where
  "unlinked [] = []"
| "unlinked (Unlink path # es) = path # unlinked es"
| "unlinked (e # es) = unlinked es"

fun is_write :: "event \<Rightarrow> bool" where
  "is_write (Created r) = True"
| "is_write (Updated i) = True"
| "is_write (Destroyed i) = True"
| "is_write (Incremented i) = True"
| "is_write e = False"

definition store_writes :: "event list \<Rightarrow> event list" where
  "store_writes es = filter is_write es"





section \<open>A small catalogue to run the handlers on\<close>

definition no_rejects :: "dbcall \<Rightarrow> bool" where
  "no_rejects c = False"

definition update_rejects :: "dbcall \<Rightarrow> bool" where
  "update_rejects c = (c = RecipeUpdate)"

definition sample_env :: env where
  "sample_env =
     \<lparr>production = False, rejects = no_rejects,
      validateRecipeDetails = validateRecipeDetails_spec\<rparr>"

definition alice :: user where
  "alice = \<lparr>u_id = 1, u_name = ''Alice'', username = ''alice'', email = ''alice@example.com'',
            password = ''secret1'', u_updatedAt = 10\<rparr>"

definition bob :: user where
  "bob = \<lparr>u_id = 2, u_name = ''Bob'', username = ''bob'', email = ''bob@example.com'',
          password = ''secret2'', u_updatedAt = 20\<rparr>"

definition carol :: user where
  "carol = \<lparr>u_id = 3, u_name = ''Carol'', username = ''carol'', email = ''carol@example.com'',
            password = ''secret3'', u_updatedAt = 30\<rparr>"

definition jollof :: recipe where
  "jollof =
     \<lparr>r_id = 5, r_userId = 1, r_name = ''Jollof'', r_description = ''Party rice'',
      r_ingredients = ''Rice, Oil'', r_direction = ''Boil'',
      r_imageUrl = Some ''recipes/old.png'', vpvotes = Some 3, downvotes = Some 1,
      viewCount = 7\<rparr>"

definition egusi :: recipe where
  "egusi =
     \<lparr>r_id = 3, r_userId = 2, r_name = ''Egusi'', r_description = ''Melon soup'',
      r_ingredients = ''Melon, Spinach'', r_direction = ''Stew'',
      r_imageUrl = Some ''recipes/soup.png'', vpvotes = Some 9, downvotes = Some 0,
      viewCount = 2\<rparr>"

text \<open>
  Bob owns recipe 3 and Alice recipe 5. Bob and Carol have favorited recipe 5, Alice
  recipe 3. Both images are on disk.
\<close>

definition sample_world :: world where
  "sample_world =
     \<lparr>recipes = [egusi, jollof], users = [carol, alice, bob],
      favorites = [\<lparr>f_userId = 2, f_recipeId = 5\<rparr>, \<lparr>f_userId = 1, f_recipeId = 3\<rparr>,
                   \<lparr>f_userId = 3, f_recipeId = 5\<rparr>],
      files = {''client/public/recipes/old.png'', ''client/public/recipes/soup.png''},
      nextId = 6, log = []\<rparr>"

text \<open>A request with valid fields, by Alice, on recipe 5, without a file.\<close>

definition sample_request :: request where
  "sample_request =
     \<lparr>upload = Inr None, body_name = Some ''Fried  rice'', body_description = Some ''Quick'',
      body_ingredients = Some ''Rice, Egg'', body_direction = Some ''Fry'',
      params_recipeId = 5, user_id = 1\<rparr>"


text \<open>Stand-ins for the four search methods, told apart by their message.\<close>

definition sample_search :: search where
  "sample_search =
     \<lparr>sortMostUpvotes =
        (\<lambda>q w. \<lparr>status = 201, success = True, message = ''most upvoted'', body = NoPayload\<rparr>),
      searchByIngredients =
        (\<lambda>q w. \<lparr>status = 201, success = True, message = ''by ingredients'', body = NoPayload\<rparr>),
      searchByName =
        (\<lambda>q w. \<lparr>status = 201, success = True, message = ''by name'', body = NoPayload\<rparr>),
      searchAll =
        (\<lambda>q w. \<lparr>status = 201, success = True, message = ''by keyword'', body = NoPayload\<rparr>)\<rparr>"

definition no_query :: query where
  "no_query =
     \<lparr>q_sort = Absent, q_order = Absent, q_ingredients = Absent, q_recipes = Absent,
      q_search = Absent\<rparr>"

text \<open>\<^verbatim>\<open>?sort=upvotes&order=descending&search=foo\<close>\<close>

definition upvotes_and_search :: query where
  "upvotes_and_search =
     no_query\<lparr>q_sort := QStr ''upvotes'', q_order := QStr ''descending'',
              q_search := QStr ''foo''\<rparr>"

text \<open>\<^verbatim>\<open>?sort=upvotes&ingredients=rice&recipes=stew&search=foo\<close>\<close>

definition ingredients_first :: query where
  "ingredients_first =
     no_query\<lparr>q_sort := QStr ''upvotes'', q_ingredients := QStr ''rice'',
              q_recipes := QStr ''stew'', q_search := QStr ''foo''\<rparr>"

text \<open>\<^verbatim>\<open>?recipes=stew&search=foo\<close>\<close>

definition name_first :: query where
  "name_first = no_query\<lparr>q_recipes := QStr ''stew'', q_search := QStr ''foo''\<rparr>"

text \<open>\<^verbatim>\<open>?ingredients=&search=foo\<close>\<close>

definition keyword_only :: query where
  "keyword_only = no_query\<lparr>q_ingredients := QStr [], q_search := QStr ''foo''\<rparr>"

text \<open>The record \<open>createRecipe\<close> stores for the sample request.\<close>

definition created_sample :: recipe where
  "created_sample =
     \<lparr>r_id = 6, r_userId = 1, r_name = ''Fried rice'', r_description = ''Quick'',
      r_ingredients = ''Rice, Egg'', r_direction = ''Fry'', r_imageUrl = Some ''null'',
      vpvotes = Some 0, downvotes = Some 0, viewCount = 0\<rparr>"

text \<open>The row recipe 5 becomes when the sample request updates it.\<close>

definition updated_sample :: recipe where
  "updated_sample =
     jollof\<lparr>r_name := ''Fried rice'', r_description := ''Quick'',
            r_ingredients := ''Rice, Egg'', r_direction := ''Fry''\<rparr>"

text \<open>The sample request without a name, and the same requests sent by Bob.\<close>

definition nameless_request :: request where
  "nameless_request = sample_request\<lparr>body_name := None\<rparr>"

definition bobs_request :: request where
  "bobs_request = sample_request\<lparr>user_id := 2\<rparr>"

definition bobs_nameless_request :: request where
  "bobs_nameless_request = nameless_request\<lparr>user_id := 2\<rparr>"

text \<open>Alice's update with a new image, and a store whose update call rejects.\<close>

definition new_image_request :: request where
  "new_image_request = sample_request\<lparr>upload := Inr (Some ''new.png'')\<rparr>"

definition failing_update_env :: env where
  "failing_update_env = sample_env\<lparr>rejects := update_rejects\<rparr>"




text \<open>
  A request carries a parameter when the parameter is present in it, whatever its
  value: the reading of the discovery rules by their words.
\<close>

definition carries :: "qparam \<Rightarrow> bool" where
  "carries p = (p \<noteq> Absent)"

text \<open>\<^verbatim>\<open>?sort=upvotes&sort=upvotes&order=descending\<close>\<close>

definition repeated_sort :: query where
  "repeated_sort =
     \<lparr>q_sort = QArr [''upvotes'', ''upvotes''], q_order = QStr ''descending'',
      q_ingredients = Absent, q_recipes = Absent, q_search = Absent\<rparr>"

text \<open>A name whose two words are separated by two no-break spaces (U+00A0).\<close>

definition nbsp_name :: string where
  "nbsp_name = ''Fried'' @ [char_of (194 :: nat), char_of (160 :: nat),
                            char_of (194 :: nat), char_of (160 :: nat)] @ ''rice''"

fun is_notify :: "event \<Rightarrow> bool" where
  "is_notify (Notify addresses subject text) = True"
| "is_notify e = False"

fun is_unlink :: "event \<Rightarrow> bool" where
  "is_unlink (Unlink path) = True"
| "is_unlink e = False"

section \<open>Properties\<close>

subsection \<open>Observations distribute over the log\<close>

lemma responses_append [simp]: "responses (xs @ ys) = responses xs @ responses ys"
  by (induction xs rule: responses.induct) simp_all

lemma strategies_run_append [simp]:
  "strategies_run (xs @ ys) = strategies_run xs @ strategies_run ys"
  by (induction xs rule: strategies_run.induct) simp_all

lemma notifications_append [simp]:
  "notifications (xs @ ys) = notifications xs @ notifications ys"
  by (induction xs rule: notifications.induct) simp_all

lemma deliveries_append [simp]: "deliveries (xs @ ys) = deliveries xs @ deliveries ys"
  by (induction xs rule: deliveries.induct) simp_all

lemma unlinked_append [simp]: "unlinked (xs @ ys) = unlinked xs @ unlinked ys"
  by (induction xs rule: unlinked.induct) simp_all

lemma store_writes_append [simp]:
  "store_writes (xs @ ys) = store_writes xs @ store_writes ys"
  by (simp add: store_writes_def)

lemmas effect_defs = events_of_def respond_def emit_def unlink_def stored_def

subsection \<open>Whitespace beyond ASCII\<close>

lemma trimWhiteSpaces_no_break_spaces: "trimWhiteSpaces (Some nbsp_name) = ''Fried rice''"
  by code_simp

subsection \<open>Discovery: which strategy runs\<close>

text \<open>
  C1, as amended. Every discovery request runs exactly one strategy, the first whose
  condition holds: Most-Upvoted when \<open>sort\<close> is the single string \<open>upvotes\<close> and
  \<open>order\<close> the single string \<open>descending\<close>, whatever else the request carries;
  otherwise Ingredient when \<open>ingredients\<close> has a truthy value; otherwise Name when
  \<open>recipes\<close> has one; otherwise Keyword when \<open>search\<close> has one; otherwise the default
  listing. A value is truthy when it is a non-empty string, a list of values or an
  object: a parameter that is present with an empty value counts as absent. The response of a
  delegated request is the one the selected search method gives. The default listing,
  when the store answers, responds 201 with every recipe of the table, in table order,
  each paired with the name and last-update time of the user whose id is the recipe's
  \<open>userId\<close> (with nothing when there is no such user).
\<close>

theorem getAllRecipes_first_match_wins:
  "(\<exists>s. strategies_run (events_of (getAllRecipes S E q) w) = [s]) \<and>
   (q_sort q = QStr ''upvotes'' \<and> q_order q = QStr ''descending'' \<longrightarrow>
      strategies_run (events_of (getAllRecipes S E q) w) = [SortMostUpvotes] \<and>
      responses (events_of (getAllRecipes S E q) w) = [sortMostUpvotes S q w]) \<and>
   (\<not> (q_sort q = QStr ''upvotes'' \<and> q_order q = QStr ''descending'') \<and>
    truthy (q_ingredients q) \<longrightarrow>
      strategies_run (events_of (getAllRecipes S E q) w) = [SearchByIngredients] \<and>
      responses (events_of (getAllRecipes S E q) w) = [searchByIngredients S q w]) \<and>
   (\<not> (q_sort q = QStr ''upvotes'' \<and> q_order q = QStr ''descending'') \<and>
    \<not> truthy (q_ingredients q) \<and> truthy (q_recipes q) \<longrightarrow>
      strategies_run (events_of (getAllRecipes S E q) w) = [SearchByName] \<and>
      responses (events_of (getAllRecipes S E q) w) = [searchByName S q w]) \<and>
   (\<not> (q_sort q = QStr ''upvotes'' \<and> q_order q = QStr ''descending'') \<and>
    \<not> truthy (q_ingredients q) \<and> \<not> truthy (q_recipes q) \<and> truthy (q_search q) \<longrightarrow>
      strategies_run (events_of (getAllRecipes S E q) w) = [SearchAll] \<and>
      responses (events_of (getAllRecipes S E q) w) = [searchAll S q w]) \<and>
   (\<not> (q_sort q = QStr ''upvotes'' \<and> q_order q = QStr ''descending'') \<and>
    \<not> truthy (q_ingredients q) \<and> \<not> truthy (q_recipes q) \<and> \<not> truthy (q_search q) \<longrightarrow>
      strategies_run (events_of (getAllRecipes S E q) w) = [Default] \<and>
      (\<not> rejects E RecipeFindAll \<longrightarrow>
         responses (events_of (getAllRecipes S E q) w) =
           [\<lparr>status = 201, success = True, message = ''Recipes found'',
             body = JoinedRows
               (map (\<lambda>r. (r, map_option (\<lambda>u. (u_name u, u_updatedAt u))
                                (find (\<lambda>u. u_id u = r_userId r) (users w))))
                  (recipes w))\<rparr>]))"
  by (simp add: getAllRecipes_def effect_defs Let_def include_User_def owner_of_def)

text \<open>
  On the sample catalogue: the five kinds of request each run their strategy, and the
  default listing pairs recipe 3 with Bob and recipe 5 with Alice, their owners.
\<close>

theorem getAllRecipes_first_match_wins_witness:
  "strategies_run (events_of (getAllRecipes sample_search sample_env upvotes_and_search)
      sample_world) = [SortMostUpvotes] \<and>
   map message (responses (events_of (getAllRecipes sample_search sample_env upvotes_and_search)
      sample_world)) = [''most upvoted''] \<and>
   strategies_run (events_of (getAllRecipes sample_search sample_env ingredients_first)
      sample_world) = [SearchByIngredients] \<and>
   strategies_run (events_of (getAllRecipes sample_search sample_env name_first)
      sample_world) = [SearchByName] \<and>
   strategies_run (events_of (getAllRecipes sample_search sample_env keyword_only)
      sample_world) = [SearchAll] \<and>
   strategies_run (events_of (getAllRecipes sample_search sample_env no_query)
      sample_world) = [Default] \<and>
   responses (events_of (getAllRecipes sample_search sample_env no_query) sample_world) =
     [\<lparr>status = 201, success = True, message = ''Recipes found'',
       body = JoinedRows [(egusi, Some (''Bob'', 20)), (jollof, Some (''Alice'', 10))]\<rparr>]"
  using
    getAllRecipes_first_match_wins [of sample_search sample_env upvotes_and_search sample_world]
    getAllRecipes_first_match_wins [of sample_search sample_env ingredients_first sample_world]
    getAllRecipes_first_match_wins [of sample_search sample_env name_first sample_world]
    getAllRecipes_first_match_wins [of sample_search sample_env keyword_only sample_world]
    getAllRecipes_first_match_wins [of sample_search sample_env no_query sample_world]
  by (simp add: upvotes_and_search_def ingredients_first_def name_first_def keyword_only_def
      no_query_def sample_search_def sample_env_def sample_world_def no_rejects_def
      jollof_def egusi_def alice_def bob_def carol_def)

text \<open>
  C1 as stated fails. The request \<^verbatim>\<open>?ingredients=&search=foo\<close> carries
  \<open>ingredients\<close> and does not ask for the upvote order, yet the Keyword strategy runs,
  not the Ingredient strategy. The request
  \<^verbatim>\<open>?sort=upvotes&sort=upvotes&order=descending\<close> carries \<open>sort=upvotes\<close> and
  \<open>order=descending\<close>, yet the default listing runs, not the Most-Upvoted strategy.
\<close>

theorem empty_ingredients_runs_keyword_search:
  "carries (q_ingredients keyword_only) \<and>
   \<not> (q_sort keyword_only = QStr ''upvotes'' \<and> q_order keyword_only = QStr ''descending'') \<and>
   strategies_run (events_of (getAllRecipes sample_search sample_env keyword_only)
      sample_world) = [SearchAll] \<and>
   q_sort repeated_sort = QArr [''upvotes'', ''upvotes''] \<and>
   q_order repeated_sort = QStr ''descending'' \<and>
   strategies_run (events_of (getAllRecipes sample_search sample_env repeated_sort)
      sample_world) = [Default]"
  by (simp add: getAllRecipes_def effect_defs Let_def carries_def keyword_only_def
      repeated_sort_def no_query_def sample_env_def no_rejects_def)

subsection \<open>Lookups in an updated table\<close>

lemma findById_map:
  "(\<And>x. r_id (f x) = r_id x) \<Longrightarrow> findById i (map f rs) = map_option f (findById i rs)"
  by (induction rs) (simp_all add: findById_def)

lemma findById_id: "findById i rs = Some r \<Longrightarrow> r_id r = i"
  by (auto simp: findById_def find_Some_iff)

lemma filter_same_map:
  "(\<And>x. r_id (f x) = r_id x) \<Longrightarrow>
   filter (\<lambda>x. r_id x = i) (map (\<lambda>x. if r_id x = i then f x else x) rs) =
   map f (filter (\<lambda>x. r_id x = i) rs)"
  by (induction rs) simp_all

lemma filter_others_map:
  "(\<And>x. r_id (f x) = r_id x) \<Longrightarrow>
   filter (\<lambda>x. r_id x \<noteq> i) (map (\<lambda>x. if r_id x = i then f x else x) rs) =
   filter (\<lambda>x. r_id x \<noteq> i) rs"
  by (induction rs) simp_all

subsection \<open>The handlers on the sample catalogue\<close>

lemma sample_never_rejects: "\<not> rejects sample_env c"
  by (simp add: sample_env_def no_rejects_def)

lemma sample_lookup: "findById 5 (recipes sample_world) = Some jollof"
  by code_simp

lemma createRecipe_sample_events:
  "events_of (createRecipe sample_env sample_request) sample_world =
     [Created created_sample,
      Send \<lparr>status = 201, success = True, message = ''New Recipe created'',
        body = Row created_sample\<rparr>]"
  by code_simp

lemma createRecipe_sample_recipes:
  "recipes (createRecipe sample_env sample_request sample_world) = [egusi, jollof, created_sample]"
  by code_simp

lemma modifyRecipe_sample_events:
  "events_of (modifyRecipe sample_env sample_request) sample_world =
     [Updated 5,
      Notify [''bob@example.com'', ''carol@example.com''] ''Favorite Recipe Modified''
        ''One of your favorite recipes has been modified'',
      Send \<lparr>status = 201, success = True, message = ''Recipe record updated'',
        body = Rows [updated_sample]\<rparr>]"
  by code_simp

lemma nameless_upload: "upload nameless_request = Inr None"
  by code_simp

lemma nameless_invalid_create:
  "truthy_msg (validateRecipeDetails sample_env (trimWhiteSpaces (body_name nameless_request))
      (trimWhiteSpaces (body_ingredients nameless_request))
      (Some (trimWhiteSpaces (body_direction nameless_request))) None) = Some ''name''"
  by code_simp

lemma nameless_invalid_modify:
  "truthy_msg (validateRecipeDetails sample_env (trimWhiteSpaces (body_name nameless_request))
      (trimWhiteSpaces (body_ingredients nameless_request)) (body_direction nameless_request)
      (Some (params_recipeId nameless_request))) = Some ''name''"
  by code_simp

lemma createRecipe_nameless_events:
  "events_of (createRecipe sample_env nameless_request) sample_world =
     [Send \<lparr>status = 400, success = False, message = ''name'', body = NoPayload\<rparr>]"
  by code_simp

lemma modifyRecipe_nameless_events:
  "events_of (modifyRecipe sample_env nameless_request) sample_world =
     [Send \<lparr>status = 400, success = False, message = ''name'', body = NoPayload\<rparr>]"
  by code_simp

subsection \<open>Creation: the image reference\<close>

text \<open>
  C10. A recipe created without an uploaded file is stored with \<open>imageUrl\<close> set to the
  four-character string \<open>null\<close>, and one created with a file with the path of the file
  under \<open>recipes/\<close>: whenever \<open>createRecipe\<close> answers 201, the response carries the
  row it appended to the table, and that row's \<open>imageUrl\<close> is a string, never NULL.
\<close>

theorem createRecipe_imageUrl_never_null:
  "Send resp \<in> set (events_of (createRecipe E req) w) \<and> status resp = 201 \<longrightarrow>
     (\<exists>r p. body resp = Row r \<and> recipes (createRecipe E req w) = recipes w @ [r] \<and>
        r_imageUrl r = Some p \<and> (upload req = Inr None \<longrightarrow> p = ''null'') \<and>
        (\<forall>fn. upload req = Inr (Some fn) \<longrightarrow> p = ''recipes/'' @ fn))"
  by (auto simp: createRecipe_def effect_defs Let_def
      split: sum.splits option.splits if_splits)

theorem createRecipe_imageUrl_never_null_witness:
  "upload sample_request = Inr None \<and>
   Send \<lparr>status = 201, success = True, message = ''New Recipe created'',
     body = Row created_sample\<rparr>
     \<in> set (events_of (createRecipe sample_env sample_request) sample_world) \<and>
   recipes (createRecipe sample_env sample_request sample_world) =
     recipes sample_world @ [created_sample] \<and>
   r_imageUrl created_sample = Some ''null''"
proof -
  let ?resp = "\<lparr>status = 201, success = True, message = ''New Recipe created'',
    body = Row created_sample\<rparr>"
  have up: "upload sample_request = Inr None"
    by (simp add: sample_request_def)
  have sent: "Send ?resp \<in> set (events_of (createRecipe sample_env sample_request) sample_world)"
    by (simp add: createRecipe_sample_events)
  from createRecipe_imageUrl_never_null [of ?resp sample_env sample_request sample_world]
    sent up
  show ?thesis by auto
qed

subsection \<open>Validation failures\<close>

text \<open>
  C8, as amended. A create or update request whose upload succeeded and whose fields
  the validator refuses is answered with status 400 (not 403) and the validator's
  message, and the table of recipes is left as it was. This holds for every validator.
\<close>

theorem validation_failure_status_400:
  "(upload req = Inr file \<and>
    truthy_msg (validateRecipeDetails E (trimWhiteSpaces (body_name req))
      (trimWhiteSpaces (body_ingredients req))
      (Some (trimWhiteSpaces (body_direction req))) None) = Some m \<longrightarrow>
      responses (events_of (createRecipe E req) w) =
        [\<lparr>status = 400, success = False, message = m, body = NoPayload\<rparr>] \<and>
      recipes (createRecipe E req w) = recipes w) \<and>
   (upload req = Inr file \<and>
    truthy_msg (validateRecipeDetails E (trimWhiteSpaces (body_name req))
      (trimWhiteSpaces (body_ingredients req)) (body_direction req)
      (Some (params_recipeId req))) = Some m \<longrightarrow>
      responses (events_of (modifyRecipe E req) w) =
        [\<lparr>status = 400, success = False, message = m, body = NoPayload\<rparr>] \<and>
      recipes (modifyRecipe E req w) = recipes w)"
  by (auto simp: createRecipe_def modifyRecipe_def effect_defs Let_def split: option.splits)

theorem validation_failure_status_400_witness:
  "upload nameless_request = Inr None \<and>
   truthy_msg (validateRecipeDetails sample_env (trimWhiteSpaces (body_name nameless_request))
      (trimWhiteSpaces (body_ingredients nameless_request))
      (Some (trimWhiteSpaces (body_direction nameless_request))) None) = Some ''name'' \<and>
   truthy_msg (validateRecipeDetails sample_env (trimWhiteSpaces (body_name nameless_request))
      (trimWhiteSpaces (body_ingredients nameless_request)) (body_direction nameless_request)
      (Some (params_recipeId nameless_request))) = Some ''name'' \<and>
   responses (events_of (createRecipe sample_env nameless_request) sample_world) =
     [\<lparr>status = 400, success = False, message = ''name'', body = NoPayload\<rparr>] \<and>
   responses (events_of (modifyRecipe sample_env nameless_request) sample_world) =
     [\<lparr>status = 400, success = False, message = ''name'', body = NoPayload\<rparr>]"
  using validation_failure_status_400
    [of nameless_request None sample_env "''name''" sample_world]
  by (simp add: nameless_invalid_create nameless_invalid_modify nameless_upload)

text \<open>
  C8 as stated fails: the sample request without a name is refused by validation, on
  create and on update, and both answers carry status 400; neither carries 403.
\<close>

theorem validation_failure_not_403:
  "map status (responses (events_of (createRecipe sample_env nameless_request) sample_world))
     = [400] \<and>
   map status (responses (events_of (modifyRecipe sample_env nameless_request) sample_world))
     = [400] \<and>
   403 \<notin> set (map status
     (responses (events_of (createRecipe sample_env nameless_request) sample_world))) \<and>
   403 \<notin> set (map status
     (responses (events_of (modifyRecipe sample_env nameless_request) sample_world)))"
  by (simp add: createRecipe_nameless_events modifyRecipe_nameless_events)

subsection \<open>Reading one recipe\<close>

lemma getRecipe_found:
  assumes "findById rid (recipes w) = Some r"
    and "\<not> rejects E RecipeFindOne" and "\<not> rejects E RecipeIncrement"
    and "\<not> rejects E RecipeReload"
  shows "getRecipe E rid w =
    w\<lparr>recipes :=
        map (\<lambda>x. if r_id x = rid then x\<lparr>viewCount := viewCount x + 1\<rparr> else x) (recipes w),
      log := log w @ [Incremented rid,
        Send \<lparr>status = 201, success = True, message = ''Recipe found'',
          body = Joined (r\<lparr>viewCount := viewCount r + 1\<rparr>, owner_of w r)\<rparr>]\<rparr>"
proof -
  have id: "r_id r = rid" using assms(1) by (rule findById_id)
  have "findById rid
      (map (\<lambda>x. if r_id x = rid then x\<lparr>viewCount := viewCount x + 1\<rparr> else x) (recipes w))
       = Some (r\<lparr>viewCount := viewCount r + 1\<rparr>)"
    using assms(1) id by (simp add: findById_map)
  then show ?thesis
    using assms id
    by (simp add: getRecipe_def effect_defs Let_def include_User_def owner_of_def)
qed

text \<open>
  C7. When the store answers, reading an existing recipe adds exactly 1 to its view
  count, leaves every other recipe as it was, and responds 201 with the reloaded row,
  which shows the new count, paired with the name and last-update time of its owner. Nothing is cached: a second read
  adds 1 again, so two reads in a row leave the count at the start plus 2, and the
  second response shows that.
\<close>

theorem getRecipe_increments_viewCount:
  assumes "findById rid (recipes w) = Some r"
    and "\<not> rejects E RecipeFindOne" and "\<not> rejects E RecipeIncrement"
    and "\<not> rejects E RecipeReload"
  shows "findById rid (recipes (getRecipe E rid w)) = Some (r\<lparr>viewCount := viewCount r + 1\<rparr>) \<and>
    responses (events_of (getRecipe E rid) w) =
      [\<lparr>status = 201, success = True, message = ''Recipe found'',
        body = Joined (r\<lparr>viewCount := viewCount r + 1\<rparr>, map_option (\<lambda>u. (u_name u, u_updatedAt u))
            (find (\<lambda>u. u_id u = r_userId r) (users w)))\<rparr>] \<and>
    filter (\<lambda>x. r_id x \<noteq> rid) (recipes (getRecipe E rid w)) =
      filter (\<lambda>x. r_id x \<noteq> rid) (recipes w) \<and>
    map viewCount (filter (\<lambda>x. r_id x = rid) (recipes (getRecipe E rid w))) =
      map (\<lambda>x. viewCount x + 1) (filter (\<lambda>x. r_id x = rid) (recipes w)) \<and>
    findById rid (recipes (getRecipe E rid (getRecipe E rid w))) =
      Some (r\<lparr>viewCount := viewCount r + 2\<rparr>) \<and>
    responses (events_of (getRecipe E rid) (getRecipe E rid w)) =
      [\<lparr>status = 201, success = True, message = ''Recipe found'',
        body = Joined (r\<lparr>viewCount := viewCount r + 2\<rparr>, map_option (\<lambda>u. (u_name u, u_updatedAt u))
            (find (\<lambda>u. u_id u = r_userId r) (users w)))\<rparr>]"
proof -
  let ?w1 = "getRecipe E rid w"
  have join: "owner_of w r = map_option (\<lambda>u. (u_name u, u_updatedAt u))
      (find (\<lambda>u. u_id u = r_userId r) (users w))"
    by (simp add: owner_of_def)
  have id: "r_id r = rid" using assms(1) by (rule findById_id)
  have one: "findById rid (recipes ?w1) = Some (r\<lparr>viewCount := viewCount r + 1\<rparr>)"
    using assms(1) id by (simp add: getRecipe_found [OF assms] findById_map)
  have resp: "responses (events_of (getRecipe E rid) w) =
      [\<lparr>status = 201, success = True, message = ''Recipe found'',
        body = Joined (r\<lparr>viewCount := viewCount r + 1\<rparr>, map_option (\<lambda>u. (u_name u, u_updatedAt u))
            (find (\<lambda>u. u_id u = r_userId r) (users w)))\<rparr>]"
    by (simp add: getRecipe_found [OF assms] events_of_def join)
  have frame: "filter (\<lambda>x. r_id x \<noteq> rid) (recipes ?w1) =
      filter (\<lambda>x. r_id x \<noteq> rid) (recipes w)"
    by (simp add: getRecipe_found [OF assms] filter_others_map)
  have counts: "map viewCount (filter (\<lambda>x. r_id x = rid) (recipes ?w1)) =
      map (\<lambda>x. viewCount x + 1) (filter (\<lambda>x. r_id x = rid) (recipes w))"
    by (simp add: getRecipe_found [OF assms] filter_same_map o_def)
  note second = getRecipe_found [OF one assms(2-4)]
  have two: "findById rid (recipes (getRecipe E rid ?w1)) =
      Some (r\<lparr>viewCount := viewCount r + 2\<rparr>)"
    using one id by (simp add: second findById_map)
  have own: "owner_of ?w1 (r\<lparr>viewCount := viewCount r + 1\<rparr>) = owner_of w r"
    by (simp add: getRecipe_found [OF assms] owner_of_def)
  have resp2: "responses (events_of (getRecipe E rid) ?w1) =
      [\<lparr>status = 201, success = True, message = ''Recipe found'',
        body = Joined (r\<lparr>viewCount := viewCount r + 2\<rparr>, map_option (\<lambda>u. (u_name u, u_updatedAt u))
            (find (\<lambda>u. u_id u = r_userId r) (users w)))\<rparr>]"
    by (simp add: second events_of_def own join)
  from one resp frame counts two resp2 show ?thesis
    by (intro conjI)
qed

theorem getRecipe_increments_viewCount_witness:
  "findById 5 (recipes sample_world) = Some jollof \<and> viewCount jollof = 7 \<and>
   findById 5 (recipes (getRecipe sample_env 5 sample_world)) =
     Some (jollof\<lparr>viewCount := 8\<rparr>) \<and>
   filter (\<lambda>x. r_id x \<noteq> 5) (recipes (getRecipe sample_env 5 sample_world)) = [egusi] \<and>
   map viewCount (filter (\<lambda>x. r_id x = 5) (recipes (getRecipe sample_env 5 sample_world)))
     = [8] \<and>
   findById 5 (recipes (getRecipe sample_env 5 (getRecipe sample_env 5 sample_world))) =
     Some (jollof\<lparr>viewCount := 9\<rparr>) \<and>
   responses (events_of (getRecipe sample_env 5) sample_world) =
     [\<lparr>status = 201, success = True, message = ''Recipe found'',
       body = Joined (jollof\<lparr>viewCount := 8\<rparr>, Some (''Alice'', 10))\<rparr>] \<and>
   responses (events_of (getRecipe sample_env 5) (getRecipe sample_env 5 sample_world)) =
     [\<lparr>status = 201, success = True, message = ''Recipe found'',
       body = Joined (jollof\<lparr>viewCount := 9\<rparr>, Some (''Alice'', 10))\<rparr>]"
proof -
  have own: "map_option (\<lambda>u. (u_name u, u_updatedAt u))
      (find (\<lambda>u. u_id u = r_userId jollof) (users sample_world)) = Some (''Alice'', 10)"
    by (simp add: sample_world_def jollof_def alice_def carol_def)
  have count: "viewCount jollof = 7"
    by (simp add: jollof_def)
  have others: "filter (\<lambda>x. r_id x \<noteq> 5) (recipes sample_world) = [egusi]"
    by (simp add: sample_world_def jollof_def egusi_def)
  have same: "filter (\<lambda>x. r_id x = 5) (recipes sample_world) = [jollof]"
    by (simp add: sample_world_def jollof_def egusi_def)
  from getRecipe_increments_viewCount
    [OF sample_lookup sample_never_rejects sample_never_rejects sample_never_rejects]
  show ?thesis
    by (simp add: sample_lookup own count others same)
qed

subsection \<open>What the effect helpers leave alone\<close>

lemma emit_simps [simp]:
  "recipes (emit e w) = recipes w" "users (emit e w) = users w"
  "favorites (emit e w) = favorites w" "files (emit e w) = files w"
  "nextId (emit e w) = nextId w" "log (emit e w) = log w @ [e]"
  by (simp_all add: emit_def)

lemma respond_simps [simp]:
  "recipes (respond st ok m p w) = recipes w" "users (respond st ok m p w) = users w"
  "favorites (respond st ok m p w) = favorites w" "files (respond st ok m p w) = files w"
  "nextId (respond st ok m p w) = nextId w"
  "log (respond st ok m p w) =
     log w @ [Send \<lparr>status = st, success = ok, message = m, body = p\<rparr>]"
  by (simp_all add: respond_def)

lemma unlink_simps [simp]:
  "recipes (unlink path w) = recipes w" "users (unlink path w) = users w"
  "favorites (unlink path w) = favorites w" "files (unlink path w) = files w - {path}"
  "nextId (unlink path w) = nextId w" "log (unlink path w) = log w @ [Unlink path]"
  by (simp_all add: unlink_def)

lemma stored_simps [simp]:
  "recipes (stored E file w) = recipes w" "users (stored E file w) = users w"
  "favorites (stored E file w) = favorites w" "nextId (stored E file w) = nextId w"
  "log (stored E file w) =
     log w @ (case file of None \<Rightarrow> []
              | Some fn \<Rightarrow> [Stored (''client/'' @ folder E @ ''/recipes/'' @ fn)])"
  "files (stored E file w) =
     (case file of None \<Rightarrow> files w
      | Some fn \<Rightarrow> insert (''client/'' @ folder E @ ''/recipes/'' @ fn) (files w))"
  by (simp_all add: stored_def split: option.split)

lemma events_of_append: "log (h w) = log w @ es \<Longrightarrow> events_of h w = es"
  by (simp add: events_of_def)

lemma favorite_findAll_frame [simp]:
  "favorite_findAll i (emit e w) = favorite_findAll i w"
  "favorite_findAll i (unlink path w) = favorite_findAll i w"
  "favorite_findAll i (stored E file w) = favorite_findAll i w"
  "favorite_findAll i (w\<lparr>recipes := rs\<rparr>) = favorite_findAll i w"
  by (simp_all add: favorite_findAll_def)

subsection \<open>The paths through modifyRecipe\<close>

text \<open>
  Every run of \<open>modifyRecipe\<close> takes one of nine paths. \<open>w2\<close> is the store after
  the upload and, when a new image came with the request, the unlinking of the recipe's
  old image; \<open>w3\<close> is the store after the update resolved.
\<close>

lemma modifyRecipe_cases [case_names upload_error invalid lookup_rejects not_found
    unauthorized update_rejects favorites_reject mapping_throws updated]:
  fixes E req w
  defines "rid \<equiv> params_recipeId req"
    and "name \<equiv> trimWhiteSpaces (body_name req)"
    and "ingredients \<equiv> trimWhiteSpaces (body_ingredients req)"
  defines "checked \<equiv>
      truthy_msg (validateRecipeDetails E name ingredients (body_direction req) (Some rid))"
  obtains
    (upload_error) err where "upload req = Inl err"
      "modifyRecipe E req w = respond 400 False err NoPayload w"
  | (invalid) upl m where "upload req = Inr upl" "checked = Some m"
      "modifyRecipe E req w = respond 400 False m NoPayload (stored E upl w)"
  | (lookup_rejects) upl where "upload req = Inr upl" "checked = None"
      "rejects E RecipeFindById"
      "modifyRecipe E req w =
         respond 500 False ''Error Modifying Recipe'' NoPayload (stored E upl w)"
  | (not_found) upl where "upload req = Inr upl" "checked = None"
      "\<not> rejects E RecipeFindById" "findById rid (recipes w) = None"
      "modifyRecipe E req w =
         respond 404 False (''No matching recipe with id: '' @ show_nat rid) NoPayload
           (stored E upl w)"
  | (unauthorized) upl r where "upload req = Inr upl" "checked = None"
      "\<not> rejects E RecipeFindById" "findById rid (recipes w) = Some r"
      "r_userId r \<noteq> user_id req"
      "modifyRecipe E req w =
         respond 401 False ''You cannot modify a recipe not created by You!'' NoPayload
           (unlink (''client/'' @ folder E @ ''/'' @
                     show_nullable (case upl of Some fn \<Rightarrow> Some (''recipes/'' @ fn)
                                    | None \<Rightarrow> None))
              (stored E upl w))"
  | (update_rejects) upl r w2 where "upload req = Inr upl" "checked = None"
      "\<not> rejects E RecipeFindById" "findById rid (recipes w) = Some r"
      "r_userId r = user_id req" "rejects E RecipeUpdate"
      "w2 = (case upl of None \<Rightarrow> stored E upl w
         | Some fn \<Rightarrow> unlink (''client/'' @ folder E @ ''/'' @ show_nullable (r_imageUrl r))
                       (stored E upl w))"
      "modifyRecipe E req w = w2"
  | (favorites_reject) upl r w2 w3 where "upload req = Inr upl" "checked = None"
      "\<not> rejects E RecipeFindById" "findById rid (recipes w) = Some r"
      "r_userId r = user_id req" "\<not> rejects E RecipeUpdate"
      "w2 = (case upl of None \<Rightarrow> stored E upl w
         | Some fn \<Rightarrow> unlink (''client/'' @ folder E @ ''/'' @ show_nullable (r_imageUrl r))
                       (stored E upl w))"
      "w3 = emit (Updated rid)
         (w2\<lparr>recipes :=
            recipe_update name (trimWhiteSpaces (body_description req)) ingredients
              (case upl of None \<Rightarrow> r_imageUrl r | Some fn \<Rightarrow> Some (''recipes/'' @ fn))
              (body_direction req) rid (recipes w)\<rparr>)"
      "rejects E FavoriteFindAll"
      "modifyRecipe E req w = w3"
  | (mapping_throws) upl r w2 w3 where "upload req = Inr upl" "checked = None"
      "\<not> rejects E RecipeFindById" "findById rid (recipes w) = Some r"
      "r_userId r = user_id req" "\<not> rejects E RecipeUpdate"
      "w2 = (case upl of None \<Rightarrow> stored E upl w
         | Some fn \<Rightarrow> unlink (''client/'' @ folder E @ ''/'' @ show_nullable (r_imageUrl r))
                       (stored E upl w))"
      "w3 = emit (Updated rid)
         (w2\<lparr>recipes :=
            recipe_update name (trimWhiteSpaces (body_description req)) ingredients
              (case upl of None \<Rightarrow> r_imageUrl r | Some fn \<Rightarrow> Some (''recipes/'' @ fn))
              (body_direction req) rid (recipes w)\<rparr>)"
      "\<not> rejects E FavoriteFindAll" "userEmails (favorite_findAll rid w) = None"
      "modifyRecipe E req w = w3"
  | (updated) upl r w2 w3 emails where "upload req = Inr upl" "checked = None"
      "\<not> rejects E RecipeFindById" "findById rid (recipes w) = Some r"
      "r_userId r = user_id req" "\<not> rejects E RecipeUpdate"
      "w2 = (case upl of None \<Rightarrow> stored E upl w
         | Some fn \<Rightarrow> unlink (''client/'' @ folder E @ ''/'' @ show_nullable (r_imageUrl r))
                       (stored E upl w))"
      "w3 = emit (Updated rid)
         (w2\<lparr>recipes :=
            recipe_update name (trimWhiteSpaces (body_description req)) ingredients
              (case upl of None \<Rightarrow> r_imageUrl r | Some fn \<Rightarrow> Some (''recipes/'' @ fn))
              (body_direction req) rid (recipes w)\<rparr>)"
      "\<not> rejects E FavoriteFindAll" "userEmails (favorite_findAll rid w) = Some emails"
      "modifyRecipe E req w =
         respond 201 True ''Recipe record updated''
           (Rows (filter (\<lambda>x. r_id x = rid) (recipes w3)))
           (emit (Notify emails ''Favorite Recipe Modified''
                    ''One of your favorite recipes has been modified'') w3)"
proof (cases "upload req")
  case (Inl err)
  then have "modifyRecipe E req w = respond 400 False err NoPayload w"
    by (simp add: modifyRecipe_def)
  with Inl show ?thesis by (rule upload_error)
next
  case (Inr upl)
  show ?thesis
  proof (cases checked)
    case (Some m)
    with Inr have "modifyRecipe E req w = respond 400 False m NoPayload (stored E upl w)"
      by (simp add: modifyRecipe_def Let_def checked_def name_def ingredients_def rid_def)
    with Inr Some show ?thesis by (rule invalid)
  next
    case None
    note valid = None
    show ?thesis
    proof (cases "rejects E RecipeFindById")
      case True
      with Inr valid have "modifyRecipe E req w =
          respond 500 False ''Error Modifying Recipe'' NoPayload (stored E upl w)"
        by (simp add: modifyRecipe_def Let_def checked_def name_def ingredients_def rid_def)
      with Inr valid True show ?thesis by (rule lookup_rejects)
    next
      case False
      note lookup = False
      show ?thesis
      proof (cases "findById rid (recipes w)")
        case None
        with Inr valid lookup have "modifyRecipe E req w =
            respond 404 False (''No matching recipe with id: '' @ show_nat rid) NoPayload
              (stored E upl w)"
          by (simp add: modifyRecipe_def Let_def checked_def name_def ingredients_def rid_def)
        with Inr valid lookup None show ?thesis by (rule not_found)
      next
        case (Some r)
        note found = Some
        show ?thesis
        proof (cases "r_userId r = user_id req")
          case False
          with Inr valid lookup found have "modifyRecipe E req w =
              respond 401 False ''You cannot modify a recipe not created by You!'' NoPayload
                (unlink (''client/'' @ folder E @ ''/'' @
                     show_nullable (case upl of Some fn \<Rightarrow> Some (''recipes/'' @ fn)
                                    | None \<Rightarrow> None))
                  (stored E upl w))"
            by (simp add: modifyRecipe_def Let_def checked_def name_def ingredients_def rid_def)
          with Inr valid lookup found False show ?thesis by (rule unauthorized)
        next
          case True
          note owner = True
          define w2 where "w2 =
            (case upl of None \<Rightarrow> stored E upl w
             | Some fn \<Rightarrow> unlink (''client/'' @ folder E @ ''/'' @ show_nullable (r_imageUrl r))
                           (stored E upl w))"
          define w3 where "w3 = emit (Updated rid)
            (w2\<lparr>recipes :=
               recipe_update name (trimWhiteSpaces (body_description req)) ingredients
                 (case upl of None \<Rightarrow> r_imageUrl r | Some fn \<Rightarrow> Some (''recipes/'' @ fn))
                 (body_direction req) rid (recipes w)\<rparr>)"
          have favs: "favorite_findAll rid w3 = favorite_findAll rid w"
            by (simp add: w3_def w2_def split: option.split)
          show ?thesis
          proof (cases "rejects E RecipeUpdate")
            case True
            with Inr valid lookup found owner have "modifyRecipe E req w = w2"
              by (simp add: modifyRecipe_def Let_def checked_def name_def ingredients_def
                  rid_def w2_def split: option.split)
            with Inr valid lookup found owner True w2_def show ?thesis
              by (rule update_rejects)
          next
            case False
            note update = False
            have step: "modifyRecipe E req w =
                (if rejects E FavoriteFindAll then w3
                 else case userEmails (favorite_findAll rid w3) of
                   None \<Rightarrow> w3
                 | Some emails \<Rightarrow>
                     respond 201 True ''Recipe record updated''
                       (Rows (filter (\<lambda>x. r_id x = rid) (recipes w3)))
                       (emit (Notify emails ''Favorite Recipe Modified''
                          ''One of your favorite recipes has been modified'') w3))"
              using Inr valid lookup found owner update
              by (simp add: modifyRecipe_def Let_def checked_def name_def ingredients_def
                  rid_def w2_def w3_def split: option.split)
            show ?thesis
            proof (cases "rejects E FavoriteFindAll")
              case True
              with step have "modifyRecipe E req w = w3" by simp
              with Inr valid lookup found owner update w2_def w3_def True
              show ?thesis by (rule favorites_reject)
            next
              case False
              note favorites = False
              show ?thesis
              proof (cases "userEmails (favorite_findAll rid w)")
                case None
                with step favorites favs have "modifyRecipe E req w = w3" by simp
                with Inr valid lookup found owner update w2_def w3_def favorites None
                show ?thesis by (rule mapping_throws)
              next
                case (Some emails)
                with step favorites favs have "modifyRecipe E req w =
                    respond 201 True ''Recipe record updated''
                      (Rows (filter (\<lambda>x. r_id x = rid) (recipes w3)))
                      (emit (Notify emails ''Favorite Recipe Modified''
                         ''One of your favorite recipes has been modified'') w3)"
                  by simp
                with Inr valid lookup found owner update w2_def w3_def favorites Some
                show ?thesis by (rule updated)
              qed
            qed
          qed
        qed
      qed
    qed
  qed
qed

subsection \<open>Ownership\<close>

lemma bobs_requests:
  "findById (params_recipeId bobs_request) (recipes sample_world) = Some jollof"
  "findById (params_recipeId bobs_nameless_request) (recipes sample_world) = Some jollof"
  "r_userId jollof \<noteq> user_id bobs_request"
  "r_userId jollof \<noteq> user_id bobs_nameless_request"
  "upload bobs_request = Inr None"
  by (simp_all add: bobs_request_def bobs_nameless_request_def nameless_request_def
      sample_request_def sample_world_def jollof_def egusi_def findById_def)

lemma bobs_request_valid:
  "truthy_msg (validateRecipeDetails sample_env (trimWhiteSpaces (body_name bobs_request))
     (trimWhiteSpaces (body_ingredients bobs_request)) (body_direction bobs_request)
     (Some (params_recipeId bobs_request))) = None"
  by code_simp

lemma modifyRecipe_bobs_nameless_events:
  "events_of (modifyRecipe sample_env bobs_nameless_request) sample_world =
     [Send \<lparr>status = 400, success = False, message = ''name'', body = NoPayload\<rparr>]"
  by code_simp

lemma modifyRecipe_not_owner:
  assumes "findById (params_recipeId req) (recipes w) = Some r"
    and "r_userId r \<noteq> user_id req"
  shows "recipes (modifyRecipe E req w) = recipes w"
    and "store_writes (events_of (modifyRecipe E req) w) = []"
    and "\<not> rejects E RecipeFindById \<Longrightarrow> upload req = Inr upl \<Longrightarrow>
     truthy_msg (validateRecipeDetails E (trimWhiteSpaces (body_name req))
       (trimWhiteSpaces (body_ingredients req)) (body_direction req)
       (Some (params_recipeId req))) = None \<Longrightarrow>
     responses (events_of (modifyRecipe E req) w) =
         [\<lparr>status = 401, success = False,
           message = ''You cannot modify a recipe not created by You!'', body = NoPayload\<rparr>]"
  by (cases rule: modifyRecipe_cases [of req E w];
      use assms in \<open>simp add: events_of_def store_writes_def split: option.split\<close>)+

lemma deleteRecipe_not_owner:
  assumes "findById (params_recipeId req) (recipes w) = Some r"
    and "r_userId r \<noteq> user_id req"
  shows "recipes (deleteRecipe E req w) = recipes w"
    and "store_writes (events_of (deleteRecipe E req) w) = []"
    and "files (deleteRecipe E req w) = files w"
    and "\<not> rejects E RecipeFindById \<Longrightarrow>
       responses (events_of (deleteRecipe E req) w) =
         [\<lparr>status = 401, success = False, message = ''You cannot delete this recipe'',
           body = NoPayload\<rparr>]"
  using assms
  by (simp_all add: deleteRecipe_def effect_defs Let_def store_writes_def)

text \<open>
  C3, as amended. When the recipe a request names belongs to another user, neither
  \<open>modifyRecipe\<close> nor \<open>deleteRecipe\<close> changes the table of recipes or issues a store
  write, whatever else happens. The answer is 401 whenever the request reaches the
  ownership check and the lookup resolves: for every delete request, and for every
  update request whose upload succeeded and whose fields pass validation (an update
  that fails one of those is answered 400 before the recipe is looked up).
\<close>

theorem not_owner_leaves_recipe_unchanged:
  assumes "findById (params_recipeId req) (recipes w) = Some r"
    and "r_userId r \<noteq> user_id req"
  shows "recipes (modifyRecipe E req w) = recipes w \<and>
    store_writes (events_of (modifyRecipe E req) w) = [] \<and>
    recipes (deleteRecipe E req w) = recipes w \<and>
    store_writes (events_of (deleteRecipe E req) w) = [] \<and>
    files (deleteRecipe E req w) = files w \<and>
    (\<not> rejects E RecipeFindById \<longrightarrow>
       responses (events_of (deleteRecipe E req) w) =
         [\<lparr>status = 401, success = False, message = ''You cannot delete this recipe'',
           body = NoPayload\<rparr>]) \<and>
    (\<not> rejects E RecipeFindById \<and> (\<exists>upl. upload req = Inr upl) \<and>
     truthy_msg (validateRecipeDetails E (trimWhiteSpaces (body_name req))
       (trimWhiteSpaces (body_ingredients req)) (body_direction req)
       (Some (params_recipeId req))) = None \<longrightarrow>
       responses (events_of (modifyRecipe E req) w) =
         [\<lparr>status = 401, success = False,
           message = ''You cannot modify a recipe not created by You!'', body = NoPayload\<rparr>])"
  using modifyRecipe_not_owner [OF assms] deleteRecipe_not_owner [OF assms]
  by blast

text \<open>
  On the sample catalogue: Bob's valid update and his delete of Alice's recipe 5 are
  both answered 401, and the table is as before.
\<close>

theorem not_owner_leaves_recipe_unchanged_witness:
  "findById (params_recipeId bobs_request) (recipes sample_world) = Some jollof \<and>
   r_userId jollof \<noteq> user_id bobs_request \<and>
   recipes (modifyRecipe sample_env bobs_request sample_world) = [egusi, jollof] \<and>
   recipes (deleteRecipe sample_env bobs_request sample_world) = [egusi, jollof] \<and>
   map status (responses (events_of (modifyRecipe sample_env bobs_request) sample_world))
     = [401] \<and>
   map status (responses (events_of (deleteRecipe sample_env bobs_request) sample_world))
     = [401]"
proof -
  have table: "recipes sample_world = [egusi, jollof]"
    by (simp add: sample_world_def)
  have lookup: "findById (params_recipeId bobs_request) [egusi, jollof] = Some jollof"
    using bobs_requests(1) by (simp add: table)
  from not_owner_leaves_recipe_unchanged [OF bobs_requests(1) bobs_requests(3), of sample_env]
  show ?thesis
    by (simp add: bobs_requests(3,5) bobs_request_valid sample_never_rejects table lookup)
qed

text \<open>
  C3 as stated fails: Bob's update of Alice's recipe 5 with the name missing is not
  answered Unauthorized; validation comes first and answers 400.
\<close>

theorem not_owner_invalid_update_gets_400:
  "findById (params_recipeId bobs_nameless_request) (recipes sample_world) = Some jollof \<and>
   r_userId jollof \<noteq> user_id bobs_nameless_request \<and>
   map status
     (responses (events_of (modifyRecipe sample_env bobs_nameless_request) sample_world))
     = [400]"
  by (simp add: bobs_requests modifyRecipe_bobs_nameless_events)

subsection \<open>Notification of favoriters\<close>

lemma modifyRecipe_sample_responses:
  "map status (responses (events_of (modifyRecipe sample_env sample_request) sample_world))
     = [201]"
  by (simp add: modifyRecipe_sample_events)

lemma modifyRecipe_notifies_once:
  "length (notifications (events_of (modifyRecipe E req) w)) =
     (if \<exists>resp \<in> set (responses (events_of (modifyRecipe E req) w)). status resp = 201
      then 1 else 0)"
  by (cases rule: modifyRecipe_cases [of req E w];
      simp add: events_of_def split: option.split)

lemma modifyRecipe_notifies_after_update:
  "notifications (events_of (modifyRecipe E req) w) \<noteq> [] \<longrightarrow>
     Updated (params_recipeId req) \<in>
       set (takeWhile (\<lambda>e. \<not> is_notify e) (events_of (modifyRecipe E req) w))"
  by (cases rule: modifyRecipe_cases [of req E w];
      simp add: events_of_def split: option.split)

lemma modifyRecipe_notifies_when_updated:
  "Updated (params_recipeId req) \<in> set (events_of (modifyRecipe E req) w) \<and>
   \<not> rejects E FavoriteFindAll \<and>
   userEmails (favorite_findAll (params_recipeId req) w) \<noteq> None \<longrightarrow>
     length (notifications (events_of (modifyRecipe E req) w)) = 1"
  by (cases rule: modifyRecipe_cases [of req E w];
      simp add: events_of_def split: option.split)

lemma createRecipe_never_notifies:
  "notifications (events_of (createRecipe E req) w) = []"
  by (simp add: createRecipe_def Let_def events_of_def split: sum.split option.split)

lemma deleteRecipe_never_notifies:
  "notifications (events_of (deleteRecipe E req) w) = []"
  by (simp add: deleteRecipe_def Let_def events_of_def split: option.split)

lemma reads_never_notify:
  "notifications (events_of (getRecipe E rid) w) = []"
  "notifications (events_of (getUserRecipes E uid) w) = []"
  "notifications (events_of (getAllRecipes S E q) w) = []"
  by (simp_all add: getRecipe_def getUserRecipes_def getAllRecipes_def Let_def events_of_def
      split: option.split)

lemma applyVote_never_notifies:
  "notifications (events_of (\<lambda>w. snd (applyVote rid d w)) w) = []"
  by (simp add: applyVote_def Let_def events_of_def split: option.split)

text \<open>
  C5. One run of \<open>modifyRecipe\<close> calls the notifier exactly once when it answers 201
  (the update succeeded) and not at all otherwise; when it calls it, the store update
  of the recipe has resolved earlier in the same run. Once the store update has
  resolved, the notifier is called exactly once provided the lookup of the Favorite
  rows answers and every row has its user (a run whose lookup then fails answers
  nothing and notifies nobody). No other handler of the controller calls the notifier: not create,
  not delete, not the reads and listings. The vote handler is not among the sources;
  the vote as the spec describes it does not call it either.
\<close>

theorem notification_once_per_update:
  "length (notifications (events_of (modifyRecipe E req) w)) =
     (if \<exists>resp \<in> set (responses (events_of (modifyRecipe E req) w)). status resp = 201
      then 1 else 0) \<and>
   (notifications (events_of (modifyRecipe E req) w) \<noteq> [] \<longrightarrow>
      Updated (params_recipeId req) \<in>
        set (takeWhile (\<lambda>e. \<not> is_notify e) (events_of (modifyRecipe E req) w))) \<and>
   (Updated (params_recipeId req) \<in> set (events_of (modifyRecipe E req) w) \<and>
    \<not> rejects E FavoriteFindAll \<and>
    userEmails (favorite_findAll (params_recipeId req) w) \<noteq> None \<longrightarrow>
      length (notifications (events_of (modifyRecipe E req) w)) = 1) \<and>
   notifications (events_of (createRecipe E req) w) = [] \<and>
   notifications (events_of (deleteRecipe E req) w) = [] \<and>
   notifications (events_of (getRecipe E rid) w) = [] \<and>
   notifications (events_of (getUserRecipes E uid) w) = [] \<and>
   notifications (events_of (getAllRecipes S E q) w) = [] \<and>
   notifications (events_of (\<lambda>w. snd (applyVote rid d w)) w) = []"
  using modifyRecipe_notifies_once modifyRecipe_notifies_after_update
    modifyRecipe_notifies_when_updated createRecipe_never_notifies deleteRecipe_never_notifies reads_never_notify
    applyVote_never_notifies
  by (intro conjI) assumption+

text \<open>
  On the sample catalogue: Alice's update of recipe 5 is answered 201 and calls the
  notifier once, after the update; her create and her delete do not call it.
\<close>

theorem notification_once_per_update_witness:
  "map status (responses (events_of (modifyRecipe sample_env sample_request) sample_world))
     = [201] \<and>
   length (notifications (events_of (modifyRecipe sample_env sample_request) sample_world))
     = 1 \<and>
   Updated 5 \<in> set (takeWhile (\<lambda>e. \<not> is_notify e)
     (events_of (modifyRecipe sample_env sample_request) sample_world)) \<and>
   notifications (events_of (createRecipe sample_env sample_request) sample_world) = [] \<and>
   notifications (events_of (deleteRecipe sample_env sample_request) sample_world) = []"
proof -
  have rid: "params_recipeId sample_request = 5"
    by (simp add: sample_request_def)
  have ok: "\<exists>resp \<in> set (responses (events_of (modifyRecipe sample_env sample_request)
      sample_world)). status resp = 201"
    by (simp add: modifyRecipe_sample_events)
  from notification_once_per_update [of sample_env sample_request sample_world] ok rid
  have "length (notifications (events_of (modifyRecipe sample_env sample_request)
      sample_world)) = 1" and
    "notifications (events_of (modifyRecipe sample_env sample_request) sample_world) \<noteq> [] \<longrightarrow>
     Updated 5 \<in> set (takeWhile (\<lambda>e. \<not> is_notify e)
       (events_of (modifyRecipe sample_env sample_request) sample_world))" and
    "notifications (events_of (createRecipe sample_env sample_request) sample_world) = []" and
    "notifications (events_of (deleteRecipe sample_env sample_request) sample_world) = []"
    by simp_all
  then show ?thesis
    using modifyRecipe_sample_responses by auto
qed

subsection \<open>Who is notified\<close>













subsection \<open>Vote counters\<close>















subsection \<open>Image files\<close>

text \<open>
  \<open>deleteRecipe\<close> removes the recipe's image only after the destroy resolved: when
  the destroy rejects, no file is touched, and an unlink in its log has the destroy
  before it.
\<close>

lemma deleteRecipe_unlinks_after_destroy:
  "(rejects E RecipeDestroy \<longrightarrow> files (deleteRecipe E req w) = files w) \<and>
   (unlinked (events_of (deleteRecipe E req) w) \<noteq> [] \<longrightarrow>
      Destroyed (params_recipeId req) \<in>
        set (takeWhile (\<lambda>e. \<not> is_unlink e) (events_of (deleteRecipe E req) w)))"
  by (simp add: deleteRecipe_def Let_def events_of_def split: option.split)

text \<open>
  \<open>modifyRecipe\<close> by the owner with a new image removes the old image before it asks
  the store to update: the old image is gone from the disk whether or not the update
  then rejects, and no update has resolved before the first unlink.
\<close>

lemma modifyRecipe_unlinks_old_image_first:
  assumes "upload req = Inr (Some fn)"
    and "truthy_msg (validateRecipeDetails E (trimWhiteSpaces (body_name req))
       (trimWhiteSpaces (body_ingredients req)) (body_direction req)
       (Some (params_recipeId req))) = None"
    and "\<not> rejects E RecipeFindById"
    and "findById (params_recipeId req) (recipes w) = Some r"
    and "r_userId r = user_id req"
  shows "''client/'' @ folder E @ ''/'' @ show_nullable (r_imageUrl r)
      \<notin> files (modifyRecipe E req w) \<and>
    Updated (params_recipeId req) \<notin>
      set (takeWhile (\<lambda>e. \<not> is_unlink e) (events_of (modifyRecipe E req) w))"
proof (cases rule: modifyRecipe_cases [of req E w])
  case (upload_error err)
  with assms(1) show ?thesis by simp
next
  case (invalid upl m)
  with assms(2) show ?thesis by simp
next
  case (lookup_rejects upl)
  with assms(3) show ?thesis by simp
next
  case (not_found upl)
  with assms(4) show ?thesis by simp
next
  case (unauthorized upl r')
  with assms(4,5) show ?thesis by simp
next
  case (update_rejects upl r' w2)
  from update_rejects(1) assms(1) have "upl = Some fn" by simp
  moreover from update_rejects(4) assms(4) have "r' = r" by simp
  ultimately have "w2 = unlink (''client/'' @ folder E @ ''/'' @ show_nullable (r_imageUrl r))
      (stored E (Some fn) w)"
    using update_rejects(7) by simp
  then show ?thesis
    by (simp add: update_rejects(8) events_of_def)
next
  case (favorites_reject upl r' w2 w3)
  from favorites_reject(1) assms(1) have "upl = Some fn" by simp
  moreover from favorites_reject(4) assms(4) have "r' = r" by simp
  ultimately have "w2 = unlink (''client/'' @ folder E @ ''/'' @ show_nullable (r_imageUrl r))
      (stored E (Some fn) w)"
    using favorites_reject(7) by simp
  then show ?thesis
    by (simp add: favorites_reject(10) favorites_reject(8) events_of_def)
next
  case (mapping_throws upl r' w2 w3)
  from mapping_throws(1) assms(1) have "upl = Some fn" by simp
  moreover from mapping_throws(4) assms(4) have "r' = r" by simp
  ultimately have "w2 = unlink (''client/'' @ folder E @ ''/'' @ show_nullable (r_imageUrl r))
      (stored E (Some fn) w)"
    using mapping_throws(7) by simp
  then show ?thesis
    by (simp add: mapping_throws(11) mapping_throws(8) events_of_def)
next
  case (updated upl r' w2 w3 emails)
  from updated(1) assms(1) have "upl = Some fn" by simp
  moreover from updated(4) assms(4) have "r' = r" by simp
  ultimately have "w2 = unlink (''client/'' @ folder E @ ''/'' @ show_nullable (r_imageUrl r))
      (stored E (Some fn) w)"
    using updated(7) by simp
  then show ?thesis
    by (simp add: updated(11) updated(8) events_of_def)
qed

lemma update_rejected_events:
  "events_of (modifyRecipe failing_update_env new_image_request) sample_world =
     [Stored ''client/public/recipes/new.png'', Unlink ''client/public/recipes/old.png'']"
  by code_simp

lemma update_rejected_lookup:
  "findById 5 (recipes (modifyRecipe failing_update_env new_image_request sample_world)) =
     Some jollof"
  by code_simp

lemma update_rejected_files:
  "''client/public/recipes/old.png'' \<notin>
     files (modifyRecipe failing_update_env new_image_request sample_world)"
  by code_simp

lemma old_image_on_disk: "''client/public/recipes/old.png'' \<in> files sample_world"
  by code_simp

text \<open>
  C4 fails on the update path. Alice updates her recipe 5 with a new image while the
  store's update call rejects: the old image, which was on disk, has been unlinked,
  the stored recipe still refers to it, no update has resolved, and no response is
  sent.
\<close>

theorem modifyRecipe_unlinks_before_update:
  "''client/public/recipes/old.png'' \<in> files sample_world \<and>
   rejects failing_update_env RecipeUpdate \<and>
   events_of (modifyRecipe failing_update_env new_image_request) sample_world =
     [Stored ''client/public/recipes/new.png'', Unlink ''client/public/recipes/old.png''] \<and>
   ''client/public/recipes/old.png'' \<notin>
     files (modifyRecipe failing_update_env new_image_request sample_world) \<and>
   findById 5 (recipes (modifyRecipe failing_update_env new_image_request sample_world)) =
     Some jollof \<and>
   r_imageUrl jollof = Some ''recipes/old.png''"
proof -
  have rejected: "rejects failing_update_env RecipeUpdate"
    by (simp add: failing_update_env_def update_rejects_def)
  have image: "r_imageUrl jollof = Some ''recipes/old.png''"
    by (simp add: jollof_def)
  from old_image_on_disk rejected update_rejected_events update_rejected_files
    update_rejected_lookup image
  show ?thesis
    by (intro conjI)
qed

end
